theory Spec2Isabelle
  imports Main "HOL-Library.List_Lexorder"
begin

section \<open>Text\<close>

text \<open>
  A Python \<open>str\<close> is a sequence of Unicode code points.  The report and the consolidated
  file contain Cyrillic and box-drawing characters, and \<open>str.splitlines\<close> breaks at code
  points above 255, so text is a list of code points.  With the lexicographic order on
  lists this is also the order Python's \<open>sorted\<close> uses on strings.
\<close>

type_synonym str = "nat list"

definition ascii :: "string \<Rightarrow> str" where
  "ascii s = map of_char s"

text \<open>\<open>sep.join(xs)\<close>\<close>

fun join :: "str \<Rightarrow> str list \<Rightarrow> str" where
  "join sep [] = []"
| "join sep [x] = x"
| "join sep (x # y # ys) = x @ sep @ join sep (y # ys)"

text \<open>
  The line boundaries of \<open>str.splitlines\<close>: LF, VT, FF, CR, FS, GS, RS, NEL, LS, PS;
  a CR immediately followed by LF is one boundary.
\<close>

definition is_linebreak :: "nat \<Rightarrow> bool" where
  "is_linebreak c \<longleftrightarrow> c \<in> {10, 11, 12, 13, 28, 29, 30, 133, 8232, 8233}"

fun splitlines_from :: "str \<Rightarrow> str \<Rightarrow> str list" where
  "splitlines_from cur [] = (if cur = [] then [] else [cur])"
| "splitlines_from cur [c] = (if is_linebreak c then [cur] else [cur @ [c]])"
| "splitlines_from cur (c # d # cs) =
     (if c = 13 \<and> d = 10 then cur # splitlines_from [] cs
      else if is_linebreak c then cur # splitlines_from [] (d # cs)
      else splitlines_from (cur @ [c]) (d # cs))"

definition splitlines :: "str \<Rightarrow> str list" where
  "splitlines s = splitlines_from [] s"

section \<open>Syntax trees\<close>

text \<open>
  The nodes of a parsed module, as far as \<open>analyze_python_file\<close> looks at them.
  \<open>Import\<close> carries the names of its aliases, \<open>ImportFrom\<close> the module (absent for
  \<open>from . import x\<close>) and the alias names, \<open>FunctionDef\<close> the name, the names of
  \<open>args.args\<close>, the body and the line number, \<open>ClassDef\<close> the name, the body and the
  line number.  \<open>ExprStr\<close> is an expression statement whose value is a string constant.
  \<open>Other\<close> is any other node (among them \<open>AsyncFunctionDef\<close>, compound statements,
  exception handlers) with its child nodes.  Children that are expressions, aliases or
  argument lists are left out of \<open>Import\<close>, \<open>ImportFrom\<close>, \<open>FunctionDef\<close> and
  \<open>ClassDef\<close>: no statement occurs below them, so none of the four tests of the loop
  holds there, and leaving them out keeps the order of the remaining nodes.
\<close>

datatype node =
    Import "str list"
  | ImportFrom "str option" "str list"
  | FunctionDef str "str list" "node list" nat
  | ClassDef str "node list" nat
  | ExprStr str
  | Other "node list"

fun iter_child_nodes :: "node \<Rightarrow> node list" where
  "iter_child_nodes (Import names) = []"
| "iter_child_nodes (ImportFrom m names) = []"
| "iter_child_nodes (FunctionDef n args body l) = body"
| "iter_child_nodes (ClassDef n body l) = body"
| "iter_child_nodes (ExprStr s) = []"
| "iter_child_nodes (Other cs) = cs"

fun node_count :: "node \<Rightarrow> nat" where
  "node_count (Import names) = 1"
| "node_count (ImportFrom m names) = 1"
| "node_count (FunctionDef n args body l) = Suc (sum_list (map node_count body))"
| "node_count (ClassDef n body l) = Suc (sum_list (map node_count body))"
| "node_count (ExprStr s) = 1"
| "node_count (Other cs) = Suc (sum_list (map node_count cs))"

text \<open>
  \<open>ast.walk\<close>: a queue of nodes; the first is taken out, its children are appended at
  the end, and it is yielded (breadth first).  The argument is the queue.
\<close>

function ast_walk :: "node list \<Rightarrow> node list" where
  "ast_walk [] = []"
| "ast_walk (n # todo) = n # ast_walk (todo @ iter_child_nodes n)"
  by pat_completeness auto
termination
proof (relation "measure (\<lambda>todo. sum_list (map node_count todo))")
  show "wf (measure (\<lambda>todo. sum_list (map node_count todo)))"
    by simp
next
  fix n todo
  show "(todo @ iter_child_nodes n, n # todo) \<in> measure (\<lambda>todo. sum_list (map node_count todo))"
    by (cases n) simp_all
qed

section \<open>Analysis of one file\<close>

record function_info =
  fn_name :: str
  fn_args :: "str list"
  fn_docstring :: "str option"
  fn_line :: nat

record class_info =
  cls_name :: str
  cls_methods :: "str list"
  cls_docstring :: "str option"
  cls_line :: nat

record analysis_data =
  an_imports :: "str list"
  an_functions :: "function_info list"
  an_classes :: "class_info list"
  an_docstring :: "str option"
  an_lines :: nat

text \<open>The dictionary \<open>analyze_python_file\<close> returns: the analysis, or \<open>{'error': message}\<close>.\<close>

datatype analysis = Analysis analysis_data | AnalysisError str

text \<open>
  What the code takes from the Python library: \<open>ast.parse\<close>, which returns the body of
  the module or raises (the message of the exception), and \<open>inspect.cleandoc\<close>, which
  \<open>ast.get_docstring\<close> applies to the string constant.
\<close>

record pylib =
  ast_parse :: "str \<Rightarrow> str + node list"
  cleandoc :: "str \<Rightarrow> str"

definition get_docstring :: "pylib \<Rightarrow> node list \<Rightarrow> str option" where
  "get_docstring lib body =
     (case body of ExprStr s # rest \<Rightarrow> Some (cleandoc lib s) | _ \<Rightarrow> None)"

text \<open>\<open>[n.name for n in node.body if isinstance(n, ast.FunctionDef)]\<close>\<close>

fun method_names :: "node list \<Rightarrow> str list" where
  "method_names [] = []"
| "method_names (FunctionDef n args body l # ns) = n # method_names ns"
| "method_names (x # ns) = method_names ns"

text \<open>One pass of the loop over \<open>ast.walk(tree)\<close>.\<close>

fun visit :: "pylib \<Rightarrow> analysis_data \<Rightarrow> node \<Rightarrow> analysis_data" where
  "visit lib a (Import names) = a\<lparr>an_imports := an_imports a @ names\<rparr>"
| "visit lib a (ImportFrom m names) =
     (case m of
        None \<Rightarrow> a
      | Some md \<Rightarrow>
          if md = [] then a
          else a\<lparr>an_imports := an_imports a @ [md @ ascii ''.'' @ join (ascii '', '') names]\<rparr>)"
| "visit lib a (FunctionDef n args body l) =
     a\<lparr>an_functions := an_functions a @
        [\<lparr>fn_name = n, fn_args = args, fn_docstring = get_docstring lib body, fn_line = l\<rparr>]\<rparr>"
| "visit lib a (ClassDef n body l) =
     a\<lparr>an_classes := an_classes a @
        [\<lparr>cls_name = n, cls_methods = method_names body,
          cls_docstring = get_docstring lib body, cls_line = l\<rparr>]\<rparr>"
| "visit lib a (ExprStr s) = a"
| "visit lib a (Other cs) = a"

text \<open>
  \<open>analyze_python_file\<close>.  The first argument of the model after the library is what
  \<open>open(filepath, 'r', encoding='utf-8')\<close> and \<open>f.read()\<close> give: the text, or the
  message of the exception.  Every exception raised in the body is caught and returned
  as the error variant.
\<close>

definition analyze_python_file :: "pylib \<Rightarrow> str + str \<Rightarrow> analysis" where
  "analyze_python_file lib rd =
     (case rd of
        Inl e \<Rightarrow> AnalysisError e
      | Inr content \<Rightarrow>
          (case ast_parse lib content of
             Inl e \<Rightarrow> AnalysisError e
           | Inr body \<Rightarrow>
               Analysis (foldl (visit lib)
                 \<lparr>an_imports = [], an_functions = [], an_classes = [],
                  an_docstring = get_docstring lib body,
                  an_lines = length (splitlines content)\<rparr>
                 (ast_walk body))))"

section \<open>File system\<close>

text \<open>
  A snapshot of the directory tree.  A file has its name, the size \<open>stat\<close> reports in
  bytes, and what opening it as UTF-8 text and reading it gives: the text, or the message
  of the exception.  A directory has its name and its listing, in the order the file
  system lists it.
\<close>

datatype entry =
    File str nat "str + str"
  | Dir str "entry list"

fun entry_name :: "entry \<Rightarrow> str" where
  "entry_name (File n sz rd) = n"
| "entry_name (Dir n es) = n"

fun is_dir :: "entry \<Rightarrow> bool" where
  "is_dir (Dir n es) = True"
| "is_dir (File n sz rd) = False"

fun files_in :: "entry list \<Rightarrow> (str \<times> nat \<times> (str + str)) list" where
  "files_in [] = []"
| "files_in (File n sz rd # es) = (n, sz, rd) # files_in es"
| "files_in (Dir n cs # es) = files_in es"

text \<open>
  \<open>os.walk\<close>, top down: a directory gives its triple (here the path from the root as a
  list of names, the names of the subdirectories, the files), then the walks of its
  subdirectories in order.  The caller prunes the list of subdirectories in place before
  the descent; in both callers this is
  \<open>dirs[:] = [d for d in dirs if d not in self.exclude_dirs]\<close>, and the test is the
  argument \<open>keep\<close>.  Walking something that is not a directory yields nothing.  A file
  is given with its size and its text, which the callers get from its path.
\<close>

fun os_walk :: "(str \<Rightarrow> bool) \<Rightarrow> str list \<Rightarrow> entry
    \<Rightarrow> (str list \<times> str list \<times> (str \<times> nat \<times> (str + str)) list) list" where
  "os_walk keep rel (Dir n es) =
     (let dirs = filter (\<lambda>d. keep (entry_name d)) (filter is_dir es)
      in (rel, map entry_name dirs, files_in es) #
         concat (map (\<lambda>d. os_walk keep (rel @ [entry_name d]) d) dirs))"
| "os_walk keep rel (File n sz rd) = []"

section \<open>The collector\<close>

record collector =
  root_dir_name :: str
  exclude_dirs :: "str set"
  exclude_files :: "str set"

definition default_exclude_dirs :: "str set" where
  "default_exclude_dirs =
     {ascii ''__pycache__'', ascii ''.git'', ascii ''.venv'', ascii ''venv'',
      ascii ''node_modules'', ascii ''.idea''}"

definition default_exclude_files :: "str set" where
  "default_exclude_files = {ascii ''*.pyc'', ascii ''*.pyo'', ascii ''.DS_Store''}"

text \<open>\<open>x or default\<close>: the default replaces \<open>None\<close> and the empty collection.\<close>

definition or_default :: "'a option \<Rightarrow> 'a \<Rightarrow> 'a \<Rightarrow> 'a" where
  "or_default x e0 d = (case x of None \<Rightarrow> d | Some v \<Rightarrow> if v = e0 then d else v)"

text \<open>\<open>__init__\<close>; the first argument is \<open>Path(root_dir).name\<close>.\<close>

definition ProjectCollector :: "str \<Rightarrow> str set option \<Rightarrow> str set option \<Rightarrow> collector" where
  "ProjectCollector name ed ef =
     \<lparr>root_dir_name = name,
      exclude_dirs = or_default ed {} default_exclude_dirs,
      exclude_files = or_default ef {} default_exclude_files\<rparr>"

text \<open>
  \<open>Path.suffix\<close> of a file name (pathlib before Python 3.14): from the last dot on,
  unless the last dot is the first or the last character of the name.
\<close>

fun rfind :: "nat \<Rightarrow> str \<Rightarrow> nat option" where
  "rfind c [] = None"
| "rfind c (x # xs) =
     (case rfind c xs of
        Some i \<Rightarrow> Some (Suc i)
      | None \<Rightarrow> if x = c then Some 0 else None)"

definition path_suffix :: "str \<Rightarrow> str" where
  "path_suffix name =
     (case rfind 46 name of
        None \<Rightarrow> []
      | Some i \<Rightarrow> if 0 < i \<and> Suc i < length name then drop i name else [])"

record file_info =
  fi_path :: str
  fi_size :: nat
  fi_extension :: str
  fi_analysis :: "analysis option"

definition default_extensions :: "str list" where
  "default_extensions =
     [ascii ''.py'', ascii ''.md'', ascii ''.txt'', ascii ''.yml'', ascii ''.yaml'', ascii ''.json'']"

text \<open>
  The dictionary \<open>collect_files\<close> builds for the file \<open>name\<close> in the directory \<open>rel\<close>;
  \<open>str(rel_path)\<close> joins the names with the separator.
\<close>

definition file_record :: "pylib \<Rightarrow> str list \<Rightarrow> str \<Rightarrow> nat \<Rightarrow> str + str \<Rightarrow> file_info" where
  "file_record lib rel name sz rd =
     \<lparr>fi_path = join (ascii ''/'') (rel @ [name]),
      fi_size = sz,
      fi_extension = path_suffix name,
      fi_analysis =
        (if path_suffix name = ascii ''.py'' then Some (analyze_python_file lib rd) else None)\<rparr>"

text \<open>
  \<open>collect_files\<close>.  \<open>collect_entries\<close> gives each record together with what reading the
  file at its path gives, which \<open>create_consolidated_code\<close> asks for again later.
\<close>

definition collect_entries ::
    "collector \<Rightarrow> pylib \<Rightarrow> entry \<Rightarrow> str list option \<Rightarrow> (file_info \<times> (str + str)) list" where
  "collect_entries c lib root extensions =
     concat (map
       (\<lambda>(rel, dirs, files).
          map (\<lambda>(name, sz, rd). (file_record lib rel name sz rd, rd))
            (filter (\<lambda>(name, sz, rd).
                path_suffix name \<in> set (or_default extensions [] default_extensions)) files))
       (os_walk (\<lambda>d. d \<notin> exclude_dirs c) [] root))"

definition collect_files ::
    "collector \<Rightarrow> pylib \<Rightarrow> entry \<Rightarrow> str list option \<Rightarrow> file_info list" where
  "collect_files c lib root extensions = map fst (collect_entries c lib root extensions)"

section \<open>The directory tree\<close>

text \<open>
  The nested dictionary of \<open>generate_tree_structure\<close>: a name is bound to the string
  \<open>'file'\<close> or to a dictionary.  A dictionary keeps its keys in insertion order.
\<close>

datatype tree = FileMark | Subtree "(str \<times> tree) list"

text \<open>\<open>d[k] = v\<close>: an existing key keeps its place, a new key goes to the end.\<close>

fun dict_set :: "str \<Rightarrow> tree \<Rightarrow> (str \<times> tree) list \<Rightarrow> (str \<times> tree) list" where
  "dict_set k v [] = [(k, v)]"
| "dict_set k v ((k', v') # d) = (if k = k' then (k, v) # d else (k', v') # dict_set k v d)"

text \<open>\<open>s.endswith(suffix)\<close>\<close>

definition endswith :: "str \<Rightarrow> str \<Rightarrow> bool" where
  "endswith s suf \<longleftrightarrow> length suf \<le> length s \<and> drop (length s - length suf) s = suf"

text \<open>\<open>not any(file.endswith(ext.replace('*', '')) for ext in self.exclude_files)\<close>\<close>

definition file_shown :: "collector \<Rightarrow> str \<Rightarrow> bool" where
  "file_shown c file \<longleftrightarrow>
     \<not> (\<exists>ext\<in>exclude_files c. endswith file (filter (\<lambda>ch. ch \<noteq> 42) ext))"

text \<open>
  One pass of the loop of \<open>generate_tree_structure\<close> for the directory \<open>rel\<close>: go down
  from the root dictionary along the names of \<open>rel\<close>, creating a dictionary where a name
  is missing, and bind the files there.  Where a name on the way is bound to \<open>'file'\<close>,
  indexing or assigning into that string raises \<open>TypeError\<close> (the result \<open>None\<close>),
  unless nothing is left to descend or to bind.
\<close>

fun insert_at :: "str list \<Rightarrow> str list \<Rightarrow> (str \<times> tree) list \<Rightarrow> (str \<times> tree) list option" where
  "insert_at [] files d = Some (foldl (\<lambda>d f. dict_set f FileMark d) d files)"
| "insert_at (p # ps) files d =
     (case map_of d p of
        None \<Rightarrow> map_option (\<lambda>sub. dict_set p (Subtree sub) d) (insert_at ps files [])
      | Some (Subtree sub) \<Rightarrow>
          map_option (\<lambda>sub'. dict_set p (Subtree sub') d) (insert_at ps files sub)
      | Some FileMark \<Rightarrow> if ps = [] \<and> files = [] then Some d else None)"

definition generate_tree_structure :: "collector \<Rightarrow> entry \<Rightarrow> (str \<times> tree) list option" where
  "generate_tree_structure c root =
     foldl
       (\<lambda>t (rel, dirs, files).
          Option.bind t (insert_at rel (filter (file_shown c) (map fst files))))
       (Some [])
       (os_walk (\<lambda>d. d \<notin> exclude_dirs c) [] root)"

text \<open>\<open>print_tree\<close>, with what it prints as the result.\<close>

definition corner :: str where "corner = [9492, 9472, 9472, 32]"
definition tee :: str where "tee = [9500, 9472, 9472, 32]"
definition bar :: str where "bar = [9474, 32, 32, 32]"

fun print_tree :: "(str \<times> tree) list \<Rightarrow> str \<Rightarrow> str" where
  "print_tree [] prefix = []"
| "print_tree ((name, FileMark) # items) prefix =
     prefix @ (if items = [] then corner else tee) @ name @ [10]
       @ print_tree items prefix"
| "print_tree ((name, Subtree d) # items) prefix =
     prefix @ (if items = [] then corner else tee) @ name @ ascii ''/'' @ [10]
       @ print_tree d (prefix @ (if items = [] then ascii ''    '' else bar))
       @ print_tree items prefix"

section \<open>The report\<close>

text \<open>\<open>str(n)\<close> of a natural number, as an f-string renders it.\<close>

fun str_nat :: "nat \<Rightarrow> str" where
  "str_nat n = (if n < 10 then [48 + n] else str_nat (n div 10) @ [48 + n mod 10])"

declare str_nat.simps [simp del]

text \<open>The statistics of \<open>generate_summary_report\<close>, over the list \<open>collect_files\<close> returns.\<close>

definition total_files :: "file_info list \<Rightarrow> nat" where
  "total_files files_info = length files_info"

definition python_files :: "file_info list \<Rightarrow> file_info list" where
  "python_files files_info = filter (\<lambda>f. fi_extension f = ascii ''.py'') files_info"

text \<open>\<open>f.get('analysis', {}).get('lines', 0)\<close>\<close>

definition get_lines :: "file_info \<Rightarrow> nat" where
  "get_lines f = (case fi_analysis f of Some (Analysis a) \<Rightarrow> an_lines a | _ \<Rightarrow> 0)"

definition total_lines :: "file_info list \<Rightarrow> nat" where
  "total_lines files_info = sum_list (map get_lines (python_files files_info))"

text \<open>
  The loop that gathers functions, classes and imports.  Each function and class is
  tagged with the path of its file (the key \<open>'file'\<close> the loop adds to its dictionary),
  here the second component of a pair.
\<close>

definition all_functions :: "file_info list \<Rightarrow> (function_info \<times> str) list" where
  "all_functions files_info =
     concat (map
       (\<lambda>f. case fi_analysis f of
               Some (Analysis a) \<Rightarrow> map (\<lambda>func. (func, fi_path f)) (an_functions a)
             | _ \<Rightarrow> [])
       (python_files files_info))"

definition all_classes :: "file_info list \<Rightarrow> (class_info \<times> str) list" where
  "all_classes files_info =
     concat (map
       (\<lambda>f. case fi_analysis f of
               Some (Analysis a) \<Rightarrow> map (\<lambda>cls. (cls, fi_path f)) (an_classes a)
             | _ \<Rightarrow> [])
       (python_files files_info))"

definition all_imports :: "file_info list \<Rightarrow> str set" where
  "all_imports files_info =
     \<Union> (set (map
       (\<lambda>f. case fi_analysis f of
               Some (Analysis a) \<Rightarrow> set (an_imports a)
             | _ \<Rightarrow> {})
       (python_files files_info)))"

text \<open>\<open>if doc: report += f"  - {doc[:100]}...\n"\<close>: an absent or empty docstring adds nothing.\<close>

definition docstring_line :: "str option \<Rightarrow> str" where
  "docstring_line doc =
     (case doc of
        None \<Rightarrow> []
      | Some d \<Rightarrow> if d = [] then [] else ascii ''  - '' @ take 100 d @ ascii ''...'' @ [10])"

definition methods_label :: str where
  "methods_label = [32, 32, 45, 32, 1052, 1077, 1090, 1086, 1076, 1099, 58, 32]"

definition arguments_label :: str where
  "arguments_label =
     [32, 32, 45, 32, 1040, 1088, 1075, 1091, 1084, 1077, 1085, 1090, 1099, 58, 32]"

definition class_lines :: "class_info \<times> str \<Rightarrow> str" where
  "class_lines = (\<lambda>(cls, file).
     ascii ''- **'' @ cls_name cls @ ascii ''** ('' @ file @ ascii '')'' @ [10]
     @ docstring_line (cls_docstring cls)
     @ (if cls_methods cls = [] then []
        else methods_label @ join (ascii '', '') (cls_methods cls) @ [10]))"

definition function_lines :: "function_info \<times> str \<Rightarrow> str" where
  "function_lines = (\<lambda>(func, file).
     ascii ''- **'' @ fn_name func @ ascii ''()** ('' @ file @ ascii '')'' @ [10]
     @ docstring_line (fn_docstring func)
     @ (if fn_args func = [] then []
        else arguments_label @ join (ascii '', '') (fn_args func) @ [10]))"

definition classes_heading :: str where
  "classes_heading =
     [35, 35, 32, 1054, 1089, 1085, 1086, 1074, 1085, 1099, 1077, 32,
      1082, 1083, 1072, 1089, 1089, 1099, 10]"

definition functions_heading :: str where
  "functions_heading =
     [35, 35, 32, 1054, 1089, 1085, 1086, 1074, 1085, 1099, 1077, 32,
      1092, 1091, 1085, 1082, 1094, 1080, 1080, 10]"

definition imports_heading :: str where
  "imports_heading =
     [35, 35, 32, 1054, 1089, 1085, 1086, 1074, 1085, 1099, 1077, 32,
      1079, 1072, 1074, 1080, 1089, 1080, 1084, 1086, 1089, 1090, 1080, 10]"

text \<open>
  The three sections.  \<open>sorted\<close> is stable, as \<open>sort_key\<close> is; \<open>sorted\<close> of the set of
  imports is its elements in increasing order.
\<close>

definition classes_section :: "(class_info \<times> str) list \<Rightarrow> str" where
  "classes_section cs =
     (if cs = [] then []
      else classes_heading
        @ concat (map class_lines (sort_key (\<lambda>(cls, file). cls_name cls) cs)) @ [10])"

definition functions_section :: "(function_info \<times> str) list \<Rightarrow> str" where
  "functions_section fs =
     (if fs = [] then []
      else functions_heading
        @ concat (map function_lines (take 20 (sort_key (\<lambda>(func, file). fn_name func) fs)))
        @ [10])"

definition imports_section :: "str set \<Rightarrow> str" where
  "imports_section imps =
     (if imps = {} then []
      else imports_heading
        @ concat (map (\<lambda>imp. ascii ''- '' @ imp @ [10]) (take 15 (sorted_list_of_set imps)))
        @ [10])"

text \<open>
  The text of the f-string: \<open>report_title\<close> up to the timestamp, then the timestamp and
  the end of its line, then \<open>report_statistics\<close>.
\<close>

definition report_title :: str where
  "report_title =
     [35, 32, 1054, 1090, 1095, 1077, 1090, 32, 1087, 1086, 32, 1087, 1088, 1086, 1077,
      1082, 1090, 1091, 10, 1044, 1072, 1090, 1072, 32, 1075, 1077, 1085, 1077, 1088,
      1072, 1094, 1080, 1080, 58, 32]"

definition report_statistics :: "collector \<Rightarrow> file_info list \<Rightarrow> str" where
  "report_statistics c files_info =
     [10, 35, 35, 32, 1054, 1073, 1097, 1072, 1103, 32, 1089, 1090, 1072, 1090, 1080,
      1089, 1090, 1080, 1082, 1072, 10, 45, 32, 1042, 1089, 1077, 1075, 1086, 32, 1092,
      1072, 1081, 1083, 1086, 1074, 58, 32]
     @ str_nat (total_files files_info)
     @ [10, 45, 32, 80, 121, 116, 104, 111, 110, 32, 1092, 1072, 1081, 1083, 1086, 1074, 58, 32]
     @ str_nat (length (python_files files_info))
     @ [10, 45, 32, 1057, 1090, 1088, 1086, 1082, 32, 1082, 1086, 1076, 1072, 58, 32]
     @ str_nat (total_lines files_info)
     @ [10, 45, 32, 1060, 1091, 1085, 1082, 1094, 1080, 1081, 58, 32]
     @ str_nat (length (all_functions files_info))
     @ [10, 45, 32, 1050, 1083, 1072, 1089, 1089, 1086, 1074, 58, 32]
     @ str_nat (length (all_classes files_info))
     @ [10, 45, 32, 1059, 1085, 1080, 1082, 1072, 1083, 1100, 1085, 1099, 1093, 32, 1080,
        1084, 1087, 1086, 1088, 1090, 1086, 1074, 58, 32]
     @ str_nat (card (all_imports files_info))
     @ [10, 10, 35, 35, 32, 1057, 1090, 1088, 1091, 1082, 1090, 1091, 1088, 1072, 32, 1087,
        1088, 1086, 1077, 1082, 1090, 1072, 10, 96, 96, 96, 10]
     @ root_dir_name c @ ascii ''/'' @ [10]"

text \<open>
  \<open>generate_summary_report\<close>: the report it writes and returns, or \<open>None\<close> where
  \<open>generate_tree_structure\<close> raises.  \<open>now\<close> is
  \<open>datetime.now().strftime('%Y-%m-%d %H:%M:%S')\<close>.
\<close>

definition generate_summary_report :: "collector \<Rightarrow> pylib \<Rightarrow> entry \<Rightarrow> str \<Rightarrow> str option" where
  "generate_summary_report c lib root now =
     (let files_info = collect_files c lib root None
      in map_option
           (\<lambda>tree.
              report_title @ now @ [10] @ report_statistics c files_info
              @ print_tree tree [] @ ascii ''```'' @ [10, 10]
              @ classes_section (all_classes files_info)
              @ functions_section (all_functions files_info)
              @ imports_section (all_imports files_info))
           (generate_tree_structure c root))"

section \<open>The consolidated file\<close>

text \<open>
  The f-string at the head of the consolidated file: \<open>consolidated_title\<close> up to the
  timestamp, the timestamp and the end of its line, then the number of files.
\<close>

definition consolidated_title :: str where
  "consolidated_title =
     [34, 34, 34, 10, 61, 61, 61, 32, 1054, 1041, 1066, 1045, 1044, 1048, 1053, 1045, 1053,
      1053, 1067, 1049, 32, 1050, 1054, 1044, 32, 1055, 1056, 1054, 1045, 1050, 1058, 1040,
      32, 61, 61, 61, 10, 1044, 1072, 1090, 1072, 58, 32]"

definition consolidated_count :: "nat \<Rightarrow> str" where
  "consolidated_count n =
     [1060, 1072, 1081, 1083, 1086, 1074, 58, 32]
     @ str_nat n
     @ [10, 10, 1057, 1058, 1056, 1059, 1050, 1058, 1059, 1056, 1040, 58, 10, 34, 34, 34, 10, 10]"

definition consolidated_header :: "str \<Rightarrow> nat \<Rightarrow> str" where
  "consolidated_header now n = consolidated_title @ now @ [10] @ consolidated_count n"

text \<open>The banner of a file that is too big, and the banner of a file that cannot be read.\<close>

definition too_big_banner :: "file_info \<Rightarrow> str" where
  "too_big_banner f =
     ascii ''# === '' @ fi_path f
     @ [32, 61, 61, 61, 32, 91, 1060, 1040, 1049, 1051, 32, 1057, 1051, 1048, 1064, 1050,
        1054, 1052, 32, 1041, 1054, 1051, 1068, 1064, 1054, 1049, 58, 32]
     @ str_nat (fi_size f)
     @ [32, 1073, 1072, 1081, 1090, 93, 10, 10]"

definition read_error_banner :: "file_info \<Rightarrow> str \<Rightarrow> str" where
  "read_error_banner f e =
     ascii ''# === '' @ fi_path f
     @ [32, 61, 61, 61, 32, 91, 1054, 1064, 1048, 1041, 1050, 1040, 32, 1063, 1058, 1045,
        1053, 1048, 1071, 58, 32]
     @ e @ ascii '']'' @ [10, 10]"

text \<open>\<open>analysis.get('functions')\<close> and \<open>analysis.get('classes')\<close>, where they are truthy.\<close>

definition functions_line :: "file_info \<Rightarrow> str" where
  "functions_line f =
     (case fi_analysis f of
        Some (Analysis a) \<Rightarrow>
          if an_functions a = [] then []
          else [35, 32, 1060, 1059, 1053, 1050, 1062, 1048, 1048, 58, 32]
               @ join (ascii '', '') (map fn_name (an_functions a)) @ [10]
      | _ \<Rightarrow> [])"

definition classes_line :: "file_info \<Rightarrow> str" where
  "classes_line f =
     (case fi_analysis f of
        Some (Analysis a) \<Rightarrow>
          if an_classes a = [] then []
          else [35, 32, 1050, 1051, 1040, 1057, 1057, 1067, 58, 32]
               @ join (ascii '', '') (map cls_name (an_classes a)) @ [10]
      | _ \<Rightarrow> [])"

definition file_banner :: "file_info \<Rightarrow> str" where
  "file_banner f =
     ascii ''# '' @ replicate 50 61 @ [10]
     @ [35, 32, 1060, 1040, 1049, 1051, 58, 32] @ fi_path f @ [10]
     @ [35, 32, 1056, 1040, 1047, 1052, 1045, 1056, 58, 32] @ str_nat (fi_size f)
     @ [32, 1073, 1072, 1081, 1090, 10]
     @ functions_line f @ classes_line f
     @ ascii ''# '' @ replicate 50 61 @ [10, 10]"

text \<open>
  One pass of the loop of \<open>create_consolidated_code\<close>: what it appends for a file, given
  what opening and reading the file gives.
\<close>

definition consolidate_file :: "nat \<Rightarrow> file_info \<times> (str + str) \<Rightarrow> str" where
  "consolidate_file max_file_size = (\<lambda>(f, rd).
     if fi_size f > max_file_size then too_big_banner f
     else (case rd of
             Inl e \<Rightarrow> read_error_banner f e
           | Inr content \<Rightarrow> file_banner f @ content @ [10, 10]))"


text \<open>
  \<open>[f for f in self.collect_files() if f['extension'] == '.py']\<close>, each record with what
  reading its file gives.
\<close>

definition python_entries ::
    "collector \<Rightarrow> pylib \<Rightarrow> entry \<Rightarrow> (file_info \<times> (str + str)) list" where
  "python_entries c lib root =
     filter (\<lambda>(f, rd). fi_extension f = ascii ''.py'') (collect_entries c lib root None)"

text \<open>
  \<open>create_consolidated_code\<close>: the text it writes and returns.  \<open>now\<close> is the formatted
  timestamp, as in the report.
\<close>

definition create_consolidated_code :: "collector \<Rightarrow> pylib \<Rightarrow> entry \<Rightarrow> str \<Rightarrow> nat \<Rightarrow> str" where
  "create_consolidated_code c lib root now max_file_size =
     consolidated_header now (length (python_entries c lib root))
     @ concat (map (consolidate_file max_file_size) (python_entries c lib root))"

section \<open>Notions used in the statements\<close>

text \<open>The import identifiers the loop collects from a list of nodes, starting from nothing.\<close>

definition blank :: analysis_data where
  "blank = \<lparr>an_imports = [], an_functions = [], an_classes = [], an_docstring = None, an_lines = 0\<rparr>"

definition imports_of :: "pylib \<Rightarrow> node list \<Rightarrow> str list" where
  "imports_of lib ns = an_imports (foldl (visit lib) blank ns)"

text \<open>The number of line boundaries of a text, a CR LF pair counted once.\<close>

fun count_breaks :: "str \<Rightarrow> nat" where
  "count_breaks [] = 0"
| "count_breaks [c] = (if is_linebreak c then 1 else 0)"
| "count_breaks (c # d # cs) =
     (if c = 13 \<and> d = 10 then Suc (count_breaks cs)
      else if is_linebreak c then Suc (count_breaks (d # cs))
      else count_breaks (d # cs))"

text \<open>A node and everything below it, at any depth.\<close>

fun subnodes :: "node \<Rightarrow> node list" where
  "subnodes (Import names) = [Import names]"
| "subnodes (ImportFrom m names) = [ImportFrom m names]"
| "subnodes (FunctionDef n args body l) = FunctionDef n args body l # concat (map subnodes body)"
| "subnodes (ClassDef n body l) = ClassDef n body l # concat (map subnodes body)"
| "subnodes (ExprStr s) = [ExprStr s]"
| "subnodes (Other cs) = Other cs # concat (map subnodes cs)"

text \<open>
  For the examples: a library whose parser knows one text, with the module body CPython's
  \<open>ast.parse\<close> returns for it, and rejects every other text; docstrings are left as
  they are.
\<close>

definition parser_at :: "str \<Rightarrow> node list \<Rightarrow> pylib" where
  "parser_at content body =
     \<lparr>ast_parse = (\<lambda>s. if s = content then Inr body else Inl (ascii ''invalid syntax'')),
      cleandoc = (\<lambda>s. s)\<rparr>"

definition example_class_text :: str where
  "example_class_text = ascii ''class A:'' @ [10] @ ascii '' def m(self): pass''"

definition example_class_body :: "node list" where
  "example_class_body =
     [ClassDef (ascii ''A'') [FunctionDef (ascii ''m'') [ascii ''self''] [Other []] 2] 1]"

text \<open>
  Every file of the tree below a directory, each with the names of the directories on the
  way down to it, its name, size and text: the files of the directory itself, then those
  of its subdirectories in order.  Nothing is pruned here.
\<close>

fun all_files :: "str list \<Rightarrow> entry \<Rightarrow> (str list \<times> str \<times> nat \<times> (str + str)) list" where
  "all_files rel (Dir n es) =
     map (\<lambda>(name, sz, rd). (rel, name, sz, rd)) (files_in es)
     @ concat (map (\<lambda>d. all_files (rel @ [entry_name d]) d) (filter is_dir es))"
| "all_files rel (File n sz rd) = []"

text \<open>The files \<open>os.walk\<close> yields under the pruning, each with its directory.\<close>

definition walked_files :: "(str \<Rightarrow> bool) \<Rightarrow> str list \<Rightarrow> entry
    \<Rightarrow> (str list \<times> str \<times> nat \<times> (str + str)) list" where
  "walked_files keep rel e =
     concat (map (\<lambda>(r, dirs, files). map (\<lambda>(name, sz, rd). (r, name, sz, rd)) files)
       (os_walk keep rel e))"

text \<open>The functions and the imports the report lists.\<close>

definition listed_functions :: "(function_info \<times> str) list \<Rightarrow> (function_info \<times> str) list" where
  "listed_functions fs = take 20 (sort_key (\<lambda>(func, file). fn_name func) fs)"

definition listed_imports :: "str set \<Rightarrow> str list" where
  "listed_imports imps = take 15 (sorted_list_of_set imps)"

text \<open>Examples.\<close>

definition example_tree :: entry where
  "example_tree =
     Dir (ascii ''proj'')
       [File (ascii ''a.py'') 4 (Inr (ascii ''pass'')),
        Dir (ascii ''.git'') [File (ascii ''hook.py'') 4 (Inr (ascii ''pass''))],
        File (ascii ''notes.bin'') 9 (Inl (ascii ''invalid start byte'')),
        Dir (ascii ''sub'')
          [File (ascii ''b.md'') 2 (Inr (ascii ''hi'')),
           Dir (ascii ''venv'') [File (ascii ''c.py'') 4 (Inr (ascii ''pass''))]]]"

definition example_functions :: "(function_info \<times> str) list" where
  "example_functions =
     map (\<lambda>n. (\<lparr>fn_name = [122 - n], fn_args = [], fn_docstring = None, fn_line = Suc n\<rparr>,
                ascii ''a.py''))
       [0..<21]"

definition example_class :: "class_info \<times> str" where
  "example_class =
     (\<lparr>cls_name = ascii ''A'', cls_methods = [], cls_docstring = Some (ascii ''doc''),
       cls_line = 1\<rparr>, ascii ''a.py'')"


section \<open>The loop over the syntax tree\<close>

lemma visit_imports:
  "an_imports (visit lib a n) = an_imports a @ an_imports (visit lib blank n)"
  by (cases n) (simp_all add: blank_def split: option.splits)

lemma foldl_visit_imports:
  "an_imports (foldl (visit lib) a ns) = an_imports a @ imports_of lib ns"
proof (induction ns arbitrary: a rule: rev_induct)
  case Nil
  show ?case by (simp add: imports_of_def blank_def)
next
  case (snoc n ns)
  show ?case
    using snoc[of a] snoc[of blank] visit_imports[of lib "foldl (visit lib) a ns" n]
      visit_imports[of lib "foldl (visit lib) blank ns" n]
    by (simp add: imports_of_def blank_def)
qed

lemma imports_of_append:
  "imports_of lib (xs @ ys) = imports_of lib xs @ imports_of lib ys"
  using foldl_visit_imports[of lib "foldl (visit lib) blank xs" ys]
  by (simp add: imports_of_def)

lemma visit_lines: "an_lines (visit lib b n) = an_lines b"
  by (cases n) (simp_all split: option.splits)

lemma foldl_visit_lines: "an_lines (foldl (visit lib) a ns) = an_lines a"
  by (induction ns rule: rev_induct) (simp_all add: visit_lines)

lemma length_splitlines_from:
  "length (splitlines_from cur s) =
     count_breaks s + (if s = [] then (if cur = [] then 0 else 1)
                       else if is_linebreak (last s) then 0 else 1)"
  by (induction cur s rule: splitlines_from.induct) (auto simp: is_linebreak_def)

lemma subnodes_children:
  "set (subnodes n) = insert n (\<Union>c\<in>set (iter_child_nodes n). set (subnodes c))"
  by (cases n) auto

lemma self_subnode: "n \<in> set (subnodes n)"
  by (cases n) simp_all

lemma set_ast_walk: "set (ast_walk q) = (\<Union>n\<in>set q. set (subnodes n))"
proof (induction q rule: ast_walk.induct)
  case 1
  show ?case by simp
next
  case (2 n todo)
  show ?case using 2 subnodes_children[of n] by auto
qed

lemma subnodes_closed:
  "n \<in> set (subnodes r) \<Longrightarrow> c \<in> set (iter_child_nodes n) \<Longrightarrow> c \<in> set (subnodes r)"
proof (induction r rule: subnodes.induct)
  case (1 names)
  then show ?case by auto
next
  case (2 m names)
  then show ?case by auto
next
  case (3 nm args body l)
  then show ?case using self_subnode[of c] by auto
next
  case (4 nm body l)
  then show ?case using self_subnode[of c] by auto
next
  case (5 s)
  then show ?case by auto
next
  case (6 cs)
  then show ?case using self_subnode[of c] by auto
qed

lemma walk_closed:
  assumes "n \<in> set (ast_walk q)" and "c \<in> set (iter_child_nodes n)"
  shows "c \<in> set (ast_walk q)"
proof -
  from assms(1) obtain r where r: "r \<in> set q" "n \<in> set (subnodes r)"
    by (auto simp: set_ast_walk)
  from subnodes_closed[OF r(2) assms(2)] r(1) show ?thesis
    by (auto simp: set_ast_walk)
qed

lemma visit_functions_mono:
  "set (an_functions a) \<subseteq> set (an_functions (visit lib a n))"
  by (cases n) (auto split: option.splits)

lemma foldl_visit_functions:
  "FunctionDef nm args body l \<in> set ns \<Longrightarrow>
   \<lparr>fn_name = nm, fn_args = args, fn_docstring = get_docstring lib body, fn_line = l\<rparr>
     \<in> set (an_functions (foldl (visit lib) a ns))"
proof (induction ns rule: rev_induct)
  case Nil
  then show ?case by simp
next
  case (snoc x xs)
  show ?case
  proof (cases "x = FunctionDef nm args body l")
    case True
    then show ?thesis by simp
  next
    case False
    with snoc have
      "\<lparr>fn_name = nm, fn_args = args, fn_docstring = get_docstring lib body, fn_line = l\<rparr>
         \<in> set (an_functions (foldl (visit lib) a xs))"
      by simp
    then show ?thesis
      using visit_functions_mono[of "foldl (visit lib) a xs" lib x] by auto
  qed
qed

lemma visit_classes_cases:
  "c \<in> set (an_classes (visit lib a n)) \<Longrightarrow>
   c \<in> set (an_classes a) \<or>
   (\<exists>nm body l. n = ClassDef nm body l \<and> cls_methods c = method_names body)"
  by (cases n) (auto split: option.splits if_splits)

lemma foldl_visit_classes:
  "c \<in> set (an_classes (foldl (visit lib) a ns)) \<Longrightarrow>
   c \<in> set (an_classes a) \<or>
   (\<exists>nm body l. ClassDef nm body l \<in> set ns \<and> cls_methods c = method_names body)"
proof (induction ns rule: rev_induct)
  case Nil
  then show ?case by simp
next
  case (snoc x xs)
  from snoc.prems have "c \<in> set (an_classes (visit lib (foldl (visit lib) a xs) x))"
    by simp
  from visit_classes_cases[OF this] snoc.IH show ?case by auto
qed

lemma method_names_defined:
  "m \<in> set (method_names body) \<Longrightarrow> \<exists>args fb l. FunctionDef m args fb l \<in> set body"
  by (induction body rule: method_names.induct) auto

section \<open>Properties of the analysis of one file\<close>

text \<open>
  C1.  A statement \<open>from X import A, B\<close> with a non-empty module name adds exactly one
  entry to the import list of the file's analysis: the module name, a dot, and the
  imported names joined with a comma and a space.  The entries before it and after it
  are the ones the other nodes contribute.
\<close>

theorem from_import_single_identifier:
  assumes "ast_parse lib content = Inr body"
    and "ast_walk body = pre @ ImportFrom (Some m) names # post"
    and "m \<noteq> []"
  shows "\<exists>a. analyze_python_file lib (Inr content) = Analysis a \<and>
           an_imports a =
             imports_of lib pre @ [m @ ascii ''.'' @ join (ascii '', '') names] @ imports_of lib post"
proof -
  have "imports_of lib [ImportFrom (Some m) names] = [m @ ascii ''.'' @ join (ascii '', '') names]"
    using assms(3) by (simp add: imports_of_def blank_def)
  then have "imports_of lib (pre @ ImportFrom (Some m) names # post) =
      imports_of lib pre @ [m @ ascii ''.'' @ join (ascii '', '') names] @ imports_of lib post"
    using imports_of_append[of lib pre "[ImportFrom (Some m) names] @ post"]
      imports_of_append[of lib "[ImportFrom (Some m) names]" post] by simp
  then show ?thesis
    using assms by (simp add: analyze_python_file_def foldl_visit_imports)
qed

theorem from_import_single_identifier_witness:
  "\<exists>a. analyze_python_file
          (parser_at (ascii ''from os import path, sep'')
             [ImportFrom (Some (ascii ''os'')) [ascii ''path'', ascii ''sep'']])
          (Inr (ascii ''from os import path, sep'')) = Analysis a \<and>
       an_imports a = [ascii ''os.path, sep'']"
  using from_import_single_identifier
    [of "parser_at (ascii ''from os import path, sep'')
             [ImportFrom (Some (ascii ''os'')) [ascii ''path'', ascii ''sep'']]"
        "ascii ''from os import path, sep''"
        "[ImportFrom (Some (ascii ''os'')) [ascii ''path'', ascii ''sep'']]"
        "[]" "ascii ''os''" "[ascii ''path'', ascii ''sep'']" "[]"]
  by (simp add: parser_at_def imports_of_def blank_def ascii_def)

text \<open>
  C2, as amended.  For a text that parses, the recorded line count is the number of lines
  \<open>str.splitlines\<close> yields: the number of line boundaries (a CR LF pair counted once),
  plus one only when the text is not empty and does not end with a line boundary.  A last
  line without a newline is counted; a trailing newline adds no line.
\<close>

theorem line_count_splitlines:
  assumes "ast_parse lib content = Inr body"
  shows "\<exists>a. analyze_python_file lib (Inr content) = Analysis a \<and>
           an_lines a = count_breaks content +
             (if content = [] \<or> is_linebreak (last content) then 0 else 1)"
  using assms length_splitlines_from[of "[]" content]
  by (simp add: analyze_python_file_def splitlines_def foldl_visit_lines)

theorem line_count_splitlines_witness:
  "\<exists>a. analyze_python_file
          (parser_at (ascii ''x = 1'' @ [10] @ ascii ''y = 2'') [Other [], Other []])
          (Inr (ascii ''x = 1'' @ [10] @ ascii ''y = 2'')) = Analysis a \<and> an_lines a = 2"
  using line_count_splitlines
    [of "parser_at (ascii ''x = 1'' @ [10] @ ascii ''y = 2'') [Other [], Other []]"
        "ascii ''x = 1'' @ [10] @ ascii ''y = 2''" "[Other [], Other []]"]
  by (simp add: parser_at_def ascii_def is_linebreak_def numeral_2_eq_2)

text \<open>
  C2, as stated, fails: the text \<open>pass\<close> followed by one newline parses, has one line
  break, and its recorded line count is 1, not 2.
\<close>

theorem line_count_counterexample:
  "analyze_python_file (parser_at (ascii ''pass'' @ [10]) [Other []]) (Inr (ascii ''pass'' @ [10]))
     = Analysis \<lparr>an_imports = [], an_functions = [], an_classes = [],
                 an_docstring = None, an_lines = 1\<rparr> \<and>
   \<not> (1 = length (filter is_linebreak (ascii ''pass'' @ [10])) + 1)"
  by (simp add: analyze_python_file_def parser_at_def get_docstring_def splitlines_def
      ascii_def is_linebreak_def)

text \<open>
  C4.  Every function definition anywhere in the syntax tree of a file that parses is in
  the flat function list of its analysis, and every method name listed for a class of the
  analysis is the name of an entry of that function list.
\<close>

theorem methods_in_function_list:
  assumes "ast_parse lib content = Inr body"
  shows "\<exists>a. analyze_python_file lib (Inr content) = Analysis a \<and>
     (\<forall>nm args fb l. FunctionDef nm args fb l \<in> set (concat (map subnodes body)) \<longrightarrow>
        \<lparr>fn_name = nm, fn_args = args, fn_docstring = get_docstring lib fb, fn_line = l\<rparr>
          \<in> set (an_functions a)) \<and>
     (\<forall>c\<in>set (an_classes a). set (cls_methods c) \<subseteq> fn_name ` set (an_functions a))"
proof -
  define a0 where "a0 = \<lparr>an_imports = [], an_functions = [], an_classes = [],
      an_docstring = get_docstring lib body, an_lines = length (splitlines content)\<rparr>"
  define a where "a = foldl (visit lib) a0 (ast_walk body)"
  have res: "analyze_python_file lib (Inr content) = Analysis a"
    using assms by (simp add: analyze_python_file_def a_def a0_def)
  have walk: "set (ast_walk body) = set (concat (map subnodes body))"
    by (simp add: set_ast_walk)
  have funs: "\<And>nm args fb l. FunctionDef nm args fb l \<in> set (ast_walk body) \<Longrightarrow>
      \<lparr>fn_name = nm, fn_args = args, fn_docstring = get_docstring lib fb, fn_line = l\<rparr>
        \<in> set (an_functions a)"
    unfolding a_def by (rule foldl_visit_functions)
  have meths: "set (cls_methods c) \<subseteq> fn_name ` set (an_functions a)"
    if c: "c \<in> set (an_classes a)" for c
  proof
    fix m assume m: "m \<in> set (cls_methods c)"
    from c have "c \<in> set (an_classes a0) \<or>
        (\<exists>nm cb l. ClassDef nm cb l \<in> set (ast_walk body) \<and> cls_methods c = method_names cb)"
      unfolding a_def by (rule foldl_visit_classes)
    then obtain nm cb l where cd: "ClassDef nm cb l \<in> set (ast_walk body)"
        and cm: "cls_methods c = method_names cb"
      by (auto simp: a0_def)
    from m cm method_names_defined[of m cb]
    obtain args fb l' where fd: "FunctionDef m args fb l' \<in> set cb" by auto
    then have "FunctionDef m args fb l' \<in> set (iter_child_nodes (ClassDef nm cb l))" by simp
    from walk_closed[OF cd this] have "FunctionDef m args fb l' \<in> set (ast_walk body)" .
    from funs[OF this] show "m \<in> fn_name ` set (an_functions a)" by force
  qed
  from res funs meths walk show ?thesis by blast
qed

theorem methods_in_function_list_witness:
  "\<exists>a. analyze_python_file (parser_at example_class_text example_class_body)
          (Inr example_class_text) = Analysis a \<and>
     \<lparr>fn_name = ascii ''m'', fn_args = [ascii ''self''],
       fn_docstring = None, fn_line = 2\<rparr> \<in> set (an_functions a) \<and>
     (\<forall>c\<in>set (an_classes a). set (cls_methods c) \<subseteq> fn_name ` set (an_functions a))"
proof -
  have p: "ast_parse (parser_at example_class_text example_class_body) example_class_text
      = Inr example_class_body"
    by (simp add: parser_at_def)
  have m: "FunctionDef (ascii ''m'') [ascii ''self''] [Other []] 2
      \<in> set (concat (map subnodes example_class_body))"
    by (simp add: example_class_body_def)
  have d: "get_docstring (parser_at example_class_text example_class_body) [Other []] = None"
    by (simp add: get_docstring_def)
  from methods_in_function_list[OF p] m d show ?thesis by force
qed

text \<open>
  C10.  A relative import whose module part is absent (\<open>from . import x\<close>) adds no entry
  to the import list of the file's analysis: the list is what the nodes before it and
  after it contribute.
\<close>

theorem relative_import_dropped:
  assumes "ast_parse lib content = Inr body"
    and "ast_walk body = pre @ ImportFrom None names # post"
  shows "\<exists>a. analyze_python_file lib (Inr content) = Analysis a \<and>
           an_imports a = imports_of lib pre @ imports_of lib post"
proof -
  have "imports_of lib [ImportFrom None names] = []"
    by (simp add: imports_of_def blank_def)
  then have "imports_of lib (pre @ ImportFrom None names # post) =
      imports_of lib pre @ imports_of lib post"
    using imports_of_append[of lib pre "[ImportFrom None names] @ post"]
      imports_of_append[of lib "[ImportFrom None names]" post] by simp
  then show ?thesis
    using assms by (simp add: analyze_python_file_def foldl_visit_imports)
qed

theorem relative_import_dropped_witness:
  "\<exists>a. analyze_python_file
          (parser_at (ascii ''from . import x'') [ImportFrom None [ascii ''x'']])
          (Inr (ascii ''from . import x'')) = Analysis a \<and>
       an_imports a = []"
  using relative_import_dropped
    [of "parser_at (ascii ''from . import x'') [ImportFrom None [ascii ''x'']]"
        "ascii ''from . import x''" "[ImportFrom None [ascii ''x'']]" "[]" "[ascii ''x'']" "[]"]
  by (simp add: parser_at_def imports_of_def blank_def)

section \<open>Properties of the enumeration\<close>

lemma concat_concat_map:
  "concat (concat (map f xs)) = concat (map (\<lambda>x. concat (f x)) xs)"
  by (induction xs) simp_all

lemma all_files_prefix:
  "(r, x) \<in> set (all_files rel e) \<Longrightarrow> set rel \<subseteq> set r"
proof (induction rel e arbitrary: r x rule: all_files.induct)
  case (1 rel n es)
  from 1(2) consider "r = rel"
    | d where "d \<in> set es" "is_dir d" "(r, x) \<in> set (all_files (rel @ [entry_name d]) d)"
    by auto
  then show ?case
  proof cases
    case 1
    then show ?thesis by simp
  next
    case 2
    from "1.IH"[of d r x] 2 show ?thesis by auto
  qed
next
  case (2 rel n sz rd)
  then show ?case by simp
qed

text \<open>Pruning on the way down leaves the files none of whose directories is pruned.\<close>

lemma walked_files_pruned:
  assumes "\<forall>d\<in>set rel. keep d"
  shows "walked_files keep rel e =
     filter (\<lambda>x. \<forall>d\<in>set (fst x). keep d) (all_files rel e)"
  using assms
proof (induction rel e rule: all_files.induct)
  case (1 rel n es)
  have here: "filter (\<lambda>x. \<forall>d\<in>set (fst x). keep d)
        (map (\<lambda>(name, sz, rd). (rel, name, sz, rd)) (files_in es))
      = map (\<lambda>(name, sz, rd). (rel, name, sz, rd)) (files_in es)"
    using 1(2) by (induction es rule: files_in.induct) auto
  have sub: "walked_files keep (rel @ [entry_name d]) d =
       filter (\<lambda>x. \<forall>d\<in>set (fst x). keep d) (all_files (rel @ [entry_name d]) d)"
    if "d \<in> set es" "is_dir d" "keep (entry_name d)" for d
    using "1.IH"[of d] that 1(2) by auto
  have dropped: "filter (\<lambda>x. \<forall>d\<in>set (fst x). keep d)
        (all_files (rel @ [entry_name d]) d) = []"
    if "\<not> keep (entry_name d)" for d
  proof -
    have "\<not> (\<forall>d'\<in>set r. keep d')" if "(r, x) \<in> set (all_files (rel @ [entry_name d]) d)" for r x
      using all_files_prefix[OF that] \<open>\<not> keep (entry_name d)\<close> by auto
    then show ?thesis by (auto simp: filter_empty_conv)
  qed
  have below: "concat (map (\<lambda>d. walked_files keep (rel @ [entry_name d]) d)
          (filter (\<lambda>d. keep (entry_name d)) (filter is_dir ds)))
      = filter (\<lambda>x. \<forall>d\<in>set (fst x). keep d)
          (concat (map (\<lambda>d. all_files (rel @ [entry_name d]) d) (filter is_dir ds)))"
    if "set ds \<subseteq> set es" for ds
    using that
  proof (induction ds)
    case Nil
    show ?case by simp
  next
    case (Cons d ds)
    show ?case
    proof (cases "is_dir d")
      case False
      with Cons show ?thesis by simp
    next
      case True
      show ?thesis
      proof (cases "keep (entry_name d)")
        case True
        with \<open>is_dir d\<close> Cons sub[of d] show ?thesis by simp
      next
        case False
        with \<open>is_dir d\<close> Cons dropped[of d] show ?thesis by simp
      qed
    qed
  qed
  have unfold: "walked_files keep rel (Dir n es) =
      map (\<lambda>(name, sz, rd). (rel, name, sz, rd)) (files_in es)
      @ concat (map (\<lambda>d. walked_files keep (rel @ [entry_name d]) d)
          (filter (\<lambda>d. keep (entry_name d)) (filter is_dir es)))"
    by (simp add: walked_files_def Let_def map_concat comp_def concat_concat_map)
  show ?case
    using here below[of es] by (simp add: unfold)
next
  case (2 rel n sz rd)
  show ?case by (simp add: walked_files_def)
qed

lemma collect_entries_walked:
  "collect_entries c lib root extensions =
     map (\<lambda>x. (file_record lib (fst x) (fst (snd x)) (fst (snd (snd x))) (snd (snd (snd x))),
                snd (snd (snd x))))
       (filter (\<lambda>x. path_suffix (fst (snd x)) \<in> set (or_default extensions [] default_extensions))
          (walked_files (\<lambda>d. d \<notin> exclude_dirs c) [] root))"
proof -
  have one: "map (\<lambda>(name, sz, rd). (file_record lib r name sz rd, rd))
            (filter (\<lambda>(name, sz, rd). path_suffix name \<in> S) files)
     = map (\<lambda>x. (file_record lib (fst x) (fst (snd x)) (fst (snd (snd x))) (snd (snd (snd x))),
                snd (snd (snd x))))
        (filter (\<lambda>x. path_suffix (fst (snd x)) \<in> S)
           (map (\<lambda>(name, sz, rd). (r, name, sz, rd)) files))" for r S
      and files :: "(str \<times> nat \<times> (str + str)) list"
    by (induction files) (auto simp: case_prod_unfold)
  have "concat (map (\<lambda>(rel, dirs, files).
          map (\<lambda>(name, sz, rd). (file_record lib rel name sz rd, rd))
            (filter (\<lambda>(name, sz, rd). path_suffix name \<in> S) files)) ts)
     = map (\<lambda>x. (file_record lib (fst x) (fst (snd x)) (fst (snd (snd x))) (snd (snd (snd x))),
                snd (snd (snd x))))
        (filter (\<lambda>x. path_suffix (fst (snd x)) \<in> S)
           (concat (map (\<lambda>(r, dirs, files). map (\<lambda>(name, sz, rd). (r, name, sz, rd)) files) ts)))"
    for S and ts :: "(str list \<times> str list \<times> (str \<times> nat \<times> (str + str)) list) list"
  proof (induction ts)
    case Nil
    show ?case by simp
  next
    case (Cons t ts)
    obtain r dirs files where t: "t = (r, dirs, files)" by (cases t) auto
    show ?case using Cons one[of r S files] by (simp add: t case_prod_unfold)
  qed
  then show ?thesis by (simp add: collect_entries_def walked_files_def case_prod_unfold)
qed

text \<open>
  C5.  The records \<open>collect_files\<close> returns are, in the order of the walk, one record for
  each file of the tree whose suffix is in the list of extensions and none of whose
  directories below the root has an excluded name; a file below an excluded directory has
  no record.
\<close>

theorem enumeration_exact:
  "collect_files c lib root extensions =
     map (\<lambda>(rel, name, sz, rd). file_record lib rel name sz rd)
       (filter (\<lambda>(rel, name, sz, rd).
            path_suffix name \<in> set (or_default extensions [] default_extensions)
            \<and> (\<forall>d\<in>set rel. d \<notin> exclude_dirs c))
          (all_files [] root))"
proof -
  have w: "walked_files (\<lambda>d. d \<notin> exclude_dirs c) [] root =
      filter (\<lambda>x. \<forall>d\<in>set (fst x). d \<notin> exclude_dirs c) (all_files [] root)"
    by (rule walked_files_pruned) simp
  show ?thesis
    unfolding collect_files_def collect_entries_walked w
    by (simp add: case_prod_unfold comp_def conj_commute)
qed

theorem enumeration_exact_witness:
  "map fi_path (collect_files (ProjectCollector (ascii ''proj'') None None)
       (parser_at (ascii ''pass'') [Other []]) example_tree None)
     = [ascii ''a.py'', ascii ''sub/b.md'']"
  using enumeration_exact[of "ProjectCollector (ascii ''proj'') None None"
      "parser_at (ascii ''pass'') [Other []]" example_tree None]
  by (simp add: example_tree_def ProjectCollector_def or_default_def default_exclude_dirs_def
      default_extensions_def path_suffix_def file_record_def ascii_def)

section \<open>Failures of the analysis\<close>

lemma analyze_failure:
  assumes "rd = Inl e \<or> (\<exists>content. rd = Inr content \<and> ast_parse lib content = Inl e)"
  shows "analyze_python_file lib rd = AnalysisError e"
  using assms by (auto simp: analyze_python_file_def)

text \<open>
  C3.  When reading the file fails, or its text does not parse, \<open>analyze_python_file\<close>
  returns the error variant with the message of the failure.  The record of such a file
  counts in the number of files, adds nothing to the sum of line counts and nothing to the
  functions, classes and imports the report gathers.
\<close>

theorem parse_failure_recorded:
  assumes fail: "rd = Inl e \<or> (\<exists>content. rd = Inr content \<and> ast_parse lib content = Inl e)"
    and py: "path_suffix name = ascii ''.py''"
    and f: "f = file_record lib rel name sz rd"
  shows "analyze_python_file lib rd = AnalysisError e \<and>
         fi_analysis f = Some (AnalysisError e) \<and>
         total_files (xs @ f # ys) = Suc (total_files (xs @ ys)) \<and>
         total_lines (xs @ f # ys) = total_lines (xs @ ys) \<and>
         all_functions (xs @ f # ys) = all_functions (xs @ ys) \<and>
         all_classes (xs @ f # ys) = all_classes (xs @ ys) \<and>
         all_imports (xs @ f # ys) = all_imports (xs @ ys)"
proof -
  have a: "analyze_python_file lib rd = AnalysisError e"
    using fail by (rule analyze_failure)
  have fa: "fi_analysis f = Some (AnalysisError e)"
    using a py f by (simp add: file_record_def)
  have ext: "fi_extension f = ascii ''.py''"
    using py f by (simp add: file_record_def)
  have pf: "python_files (xs @ f # ys) = python_files xs @ f # python_files ys"
    using ext by (simp add: python_files_def)
  have pf': "python_files (xs @ ys) = python_files xs @ python_files ys"
    by (simp add: python_files_def)
  show ?thesis
    using a fa by (simp add: total_files_def total_lines_def all_functions_def all_classes_def
        all_imports_def pf pf' get_lines_def)
qed

theorem parse_failure_recorded_witness:
  "analyze_python_file (parser_at (ascii ''pass'') [Other []]) (Inr (ascii ''def f(:''))
     = AnalysisError (ascii ''invalid syntax'') \<and>
   total_files [file_record (parser_at (ascii ''pass'') [Other []]) [] (ascii ''bad.py'') 7
                  (Inr (ascii ''def f(:''))] = 1 \<and>
   total_lines [file_record (parser_at (ascii ''pass'') [Other []]) [] (ascii ''bad.py'') 7
                  (Inr (ascii ''def f(:''))] = 0 \<and>
   all_functions [file_record (parser_at (ascii ''pass'') [Other []]) [] (ascii ''bad.py'') 7
                  (Inr (ascii ''def f(:''))] = []"
proof -
  have fail: "Inr (ascii ''def f(:'') = Inl (ascii ''invalid syntax'') \<or>
      (\<exists>content. (Inr (ascii ''def f(:'') :: str + str) = Inr content \<and>
         ast_parse (parser_at (ascii ''pass'') [Other []]) content = Inl (ascii ''invalid syntax''))"
    by (simp add: parser_at_def ascii_def)
  have py: "path_suffix (ascii ''bad.py'') = ascii ''.py''"
    by (simp add: path_suffix_def ascii_def)
  from parse_failure_recorded[OF fail py refl, of "[]" 7 "[]" "[]"]
  show ?thesis
    by (simp add: total_files_def total_lines_def all_functions_def python_files_def)
qed

section \<open>Properties of the report\<close>

lemma concat_map_split:
  assumes "x \<in> set xs"
  shows "\<exists>pre post. concat (map f xs) = pre @ f x @ post"
proof -
  from assms obtain ys zs where "xs = ys @ x # zs"
    by (auto dest: split_list)
  then have "concat (map f xs) = concat (map f ys) @ f x @ concat (map f zs)"
    by simp
  then show ?thesis by blast
qed

lemma finite_all_imports: "finite (all_imports files_info)"
  by (auto simp: all_imports_def split: option.splits analysis.splits)

text \<open>
  C6.  The report ends with the classes, functions and imports sections of what was
  gathered.  A section of nothing is the empty text.  The functions section lists
  \<open>listed_functions\<close>: with more than 20 functions these are exactly 20, the first 20 of
  the functions sorted by name (stably).  The imports section lists \<open>listed_imports\<close>: at
  most 15, the first of the distinct imports in increasing order.
\<close>

theorem report_sections:
  "generate_summary_report c lib root now =
     map_option
       (\<lambda>tree. report_title @ now @ [10]
          @ report_statistics c (collect_files c lib root None)
          @ print_tree tree [] @ ascii ''```'' @ [10, 10]
          @ classes_section (all_classes (collect_files c lib root None))
          @ functions_section (all_functions (collect_files c lib root None))
          @ imports_section (all_imports (collect_files c lib root None)))
       (generate_tree_structure c root) \<and>
   finite (all_imports (collect_files c lib root None)) \<and>
   classes_section [] = [] \<and> functions_section [] = [] \<and> imports_section {} = [] \<and>
   (fs \<noteq> [] \<longrightarrow>
      functions_section fs =
        functions_heading @ concat (map function_lines (listed_functions fs)) @ [10]) \<and>
   (20 < length fs \<longrightarrow>
      length (listed_functions fs) = 20 \<and>
      listed_functions fs @ drop 20 (sort_key (\<lambda>(func, file). fn_name func) fs)
        = sort_key (\<lambda>(func, file). fn_name func) fs \<and>
      sorted (map (\<lambda>(func, file). fn_name func) (sort_key (\<lambda>(func, file). fn_name func) fs)) \<and>
      (\<forall>nm. filter (\<lambda>(func, file). fn_name func = nm)
             (sort_key (\<lambda>(func, file). fn_name func) fs)
           = filter (\<lambda>(func, file). fn_name func = nm) fs)) \<and>
   (imps \<noteq> {} \<longrightarrow>
      imports_section imps =
        imports_heading
        @ concat (map (\<lambda>imp. ascii ''- '' @ imp @ [10]) (listed_imports imps)) @ [10]) \<and>
   length (listed_imports imps) \<le> 15 \<and>
   sorted (listed_imports imps) \<and> distinct (listed_imports imps) \<and>
   listed_imports imps @ drop 15 (sorted_list_of_set imps) = sorted_list_of_set imps \<and>
   (finite imps \<longrightarrow> set (sorted_list_of_set imps) = imps)"
proof -
  have layout: "generate_summary_report c lib root now =
     map_option
       (\<lambda>tree. report_title @ now @ [10]
          @ report_statistics c (collect_files c lib root None)
          @ print_tree tree [] @ ascii ''```'' @ [10, 10]
          @ classes_section (all_classes (collect_files c lib root None))
          @ functions_section (all_functions (collect_files c lib root None))
          @ imports_section (all_imports (collect_files c lib root None)))
       (generate_tree_structure c root)"
    by (simp add: generate_summary_report_def Let_def)
  have s: "sorted (take 15 (sorted_list_of_set imps))"
    using sorted_wrt_take[of "(\<le>)" "sorted_list_of_set imps" 15] by simp
  have st: "filter (\<lambda>(func, file). fn_name func = nm)
             (sort_key (\<lambda>(func, file). fn_name func) fs)
           = filter (\<lambda>(func, file). fn_name func = nm) fs" for nm
    using sort_key_stable[of "\<lambda>(func, file). fn_name func" nm fs]
    by (simp add: case_prod_unfold)
  have rest: "classes_section [] = [] \<and> functions_section [] = [] \<and> imports_section {} = [] \<and>
   (fs \<noteq> [] \<longrightarrow>
      functions_section fs =
        functions_heading @ concat (map function_lines (listed_functions fs)) @ [10]) \<and>
   (20 < length fs \<longrightarrow>
      length (listed_functions fs) = 20 \<and>
      listed_functions fs @ drop 20 (sort_key (\<lambda>(func, file). fn_name func) fs)
        = sort_key (\<lambda>(func, file). fn_name func) fs \<and>
      sorted (map (\<lambda>(func, file). fn_name func) (sort_key (\<lambda>(func, file). fn_name func) fs)) \<and>
      (\<forall>nm. filter (\<lambda>(func, file). fn_name func = nm)
             (sort_key (\<lambda>(func, file). fn_name func) fs)
           = filter (\<lambda>(func, file). fn_name func = nm) fs)) \<and>
   (imps \<noteq> {} \<longrightarrow>
      imports_section imps =
        imports_heading
        @ concat (map (\<lambda>imp. ascii ''- '' @ imp @ [10]) (listed_imports imps)) @ [10]) \<and>
   length (listed_imports imps) \<le> 15 \<and>
   sorted (listed_imports imps) \<and> distinct (listed_imports imps) \<and>
   listed_imports imps @ drop 15 (sorted_list_of_set imps) = sorted_list_of_set imps \<and>
   (finite imps \<longrightarrow> set (sorted_list_of_set imps) = imps)"
    using s st by (simp add: classes_section_def functions_section_def imports_section_def
      listed_functions_def listed_imports_def)
  from layout finite_all_imports[of "collect_files c lib root None"] rest
  show ?thesis by blast
qed

theorem report_sections_witness:
  "classes_section [] = [] \<and>
   20 < length example_functions \<and>
   length (listed_functions example_functions) = 20 \<and>
   imports_section {ascii ''os''} = imports_heading @ ascii ''- os'' @ [10, 10]"
proof -
  have len: "20 < length example_functions"
    by (simp add: example_functions_def)
  have ne: "{ascii ''os''} \<noteq> ({} :: str set)"
    by simp
  have li: "listed_imports {ascii ''os''} = [ascii ''os'']"
    by (simp add: listed_imports_def)
  from report_sections[of _ _ _ _ example_functions "{ascii ''os''}"] len ne li
  show ?thesis by (simp add: ascii_def)
qed

text \<open>
  C8.  A docstring that is there (not absent and not empty) is rendered as its first 100
  characters followed by three dots, also when it is shorter than 100 characters: so in
  the entry of every class of the classes section and in the entry of every function the
  functions section lists.
\<close>

theorem docstring_rendering:
  assumes "d \<noteq> []"
  shows "docstring_line (Some d) = ascii ''  - '' @ take 100 d @ ascii ''...'' @ [10] \<and>
    (length d < 100 \<longrightarrow> docstring_line (Some d) = ascii ''  - '' @ d @ ascii ''...'' @ [10]) \<and>
    (\<forall>cls file. (cls, file) \<in> set cs \<and> cls_docstring cls = Some d \<longrightarrow>
       (\<exists>pre post. classes_section cs =
          pre @ ascii ''- **'' @ cls_name cls @ ascii ''** ('' @ file @ ascii '')'' @ [10]
              @ ascii ''  - '' @ take 100 d @ ascii ''...'' @ [10] @ post)) \<and>
    (\<forall>func file. (func, file) \<in> set (listed_functions fs) \<and> fn_docstring func = Some d \<longrightarrow>
       (\<exists>pre post. functions_section fs =
          pre @ ascii ''- **'' @ fn_name func @ ascii ''()** ('' @ file @ ascii '')'' @ [10]
              @ ascii ''  - '' @ take 100 d @ ascii ''...'' @ [10] @ post))"
proof -
  have line: "docstring_line (Some d) = ascii ''  - '' @ take 100 d @ ascii ''...'' @ [10]"
    using assms by (simp add: docstring_line_def)
  have clss: "\<exists>pre post. classes_section cs =
          pre @ ascii ''- **'' @ cls_name cls @ ascii ''** ('' @ fl @ ascii '')'' @ [10]
              @ ascii ''  - '' @ take 100 d @ ascii ''...'' @ [10] @ post"
    if mem: "(cls, fl) \<in> set cs" and doc: "cls_docstring cls = Some d" for cls fl
  proof -
    from mem have "(cls, fl) \<in> set (sort_key (\<lambda>(cls, fl). cls_name cls) cs)" by simp
    from concat_map_split[OF this, of class_lines]
    obtain pre post where
      "concat (map class_lines (sort_key (\<lambda>(cls, fl). cls_name cls) cs))
         = pre @ class_lines (cls, fl) @ post" by blast
    moreover from mem have "cs \<noteq> []" by auto
    ultimately have "classes_section cs =
        (classes_heading @ pre) @ ascii ''- **'' @ cls_name cls @ ascii ''** ('' @ fl @ ascii '')'' @ [10]
              @ ascii ''  - '' @ take 100 d @ ascii ''...'' @ [10]
              @ ((if cls_methods cls = [] then []
                  else methods_label @ join (ascii '', '') (cls_methods cls) @ [10]) @ post @ [10])"
      using doc line by (simp add: classes_section_def class_lines_def)
    then show ?thesis by blast
  qed
  have funs: "\<exists>pre post. functions_section fs =
          pre @ ascii ''- **'' @ fn_name func @ ascii ''()** ('' @ fl @ ascii '')'' @ [10]
              @ ascii ''  - '' @ take 100 d @ ascii ''...'' @ [10] @ post"
    if mem: "(func, fl) \<in> set (listed_functions fs)" and doc: "fn_docstring func = Some d"
    for func fl
  proof -
    from concat_map_split[OF mem, of function_lines]
    obtain pre post where
      "concat (map function_lines (listed_functions fs))
         = pre @ function_lines (func, fl) @ post" by blast
    moreover from mem have "fs \<noteq> []" by (auto simp: listed_functions_def)
    ultimately have "functions_section fs =
        (functions_heading @ pre) @ ascii ''- **'' @ fn_name func @ ascii ''()** ('' @ fl @ ascii '')'' @ [10]
              @ ascii ''  - '' @ take 100 d @ ascii ''...'' @ [10]
              @ ((if fn_args func = [] then []
                  else arguments_label @ join (ascii '', '') (fn_args func) @ [10]) @ post @ [10])"
      using doc line by (simp add: functions_section_def function_lines_def listed_functions_def)
    then show ?thesis by blast
  qed
  from line clss funs show ?thesis by auto
qed

theorem docstring_rendering_witness:
  "docstring_line (Some (ascii ''doc'')) = ascii ''  - doc...'' @ [10] \<and>
   (\<exists>pre post. classes_section [example_class] =
      pre @ ascii ''- **A** (a.py)'' @ [10] @ ascii ''  - doc...'' @ [10] @ post)"
proof -
  have d: "ascii ''doc'' \<noteq> []" by (simp add: ascii_def)
  have l: "length (ascii ''doc'') < 100" by (simp add: ascii_def)
  have m: "(fst example_class, snd example_class) \<in> set [example_class]
      \<and> cls_docstring (fst example_class) = Some (ascii ''doc'')"
    by (simp add: example_class_def)
  from docstring_rendering[OF d, of "[example_class]"] l m
  have "docstring_line (Some (ascii ''doc'')) = ascii ''  - '' @ ascii ''doc'' @ ascii ''...'' @ [10]"
    and "\<exists>pre post. classes_section [example_class] =
          pre @ ascii ''- **'' @ cls_name (fst example_class) @ ascii ''** (''
              @ snd example_class @ ascii '')'' @ [10]
              @ ascii ''  - '' @ take 100 (ascii ''doc'') @ ascii ''...'' @ [10] @ post"
    by blast+
  then show ?thesis by (simp add: example_class_def ascii_def)
qed

section \<open>Properties of the consolidated file\<close>



section \<open>Repeated runs\<close>

text \<open>
  C9.  For a given collector, library and snapshot of the directory tree, the report and
  the consolidated text are the same for every time of the run, except for the timestamp:
  each is a fixed text, the timestamp, the end of its line and a rest that does not depend
  on the time (and whether the report is produced does not depend on the time either).
\<close>

theorem timestamp_only_difference:
  "\<exists>rest tail.
     (\<forall>now. generate_summary_report c lib root now
              = map_option (\<lambda>r. report_title @ now @ [10] @ r) rest) \<and>
     (\<forall>now. create_consolidated_code c lib root now m
              = consolidated_title @ now @ [10] @ tail)"
proof -
  define fi where "fi = collect_files c lib root None"
  define rest where "rest = map_option
      (\<lambda>tree. report_statistics c fi
         @ print_tree tree [] @ ascii ''```'' @ [10, 10]
         @ classes_section (all_classes fi)
         @ functions_section (all_functions fi)
         @ imports_section (all_imports fi))
      (generate_tree_structure c root)"
  define tail where "tail =
      consolidated_count (length (python_entries c lib root))
      @ concat (map (consolidate_file m) (python_entries c lib root))"
  have r: "generate_summary_report c lib root now
      = map_option (\<lambda>r. report_title @ now @ [10] @ r) rest" for now
    by (cases "generate_tree_structure c root")
       (simp_all add: generate_summary_report_def rest_def fi_def Let_def)
  have t: "create_consolidated_code c lib root now m
      = consolidated_title @ now @ [10] @ tail" for now
    by (simp add: create_consolidated_code_def consolidated_header_def tail_def)
  from r t show ?thesis by blast
qed

end
